theory Spec2Isabelle
  imports Complex_Main
begin

section \<open>Python values reaching the constructor\<close>

text \<open>
  \<^verbatim>\<open>WriteConcern.__init__\<close> is annotated but not type-checked at run time: any object
  can be passed for \<open>w\<close>, \<open>wtimeout\<close>, \<open>j\<close> and \<open>fsync\<close>. The values are modelled by the
  built-in types the checks of the constructor tell apart. A float is the number it
  denotes (both zeros denote 0), an infinity or a NaN.
\<close>

datatype pyfloat = Finite rat | Infinity bool | NaN

datatype pyval =
    PyNone
  | PyBool bool
  | PyInt int
  | PyFloat pyfloat
  | PyStr string
  | PyBytes string

text \<open>\<^verbatim>\<open>isinstance(v, bool)\<close>.\<close>

fun isinstance_bool :: "pyval \<Rightarrow> bool" where
  "isinstance_bool (PyBool b) = True"
| "isinstance_bool v = False"

text \<open>\<^verbatim>\<open>isinstance(v, str)\<close>.\<close>

fun isinstance_str :: "pyval \<Rightarrow> bool" where
  "isinstance_str (PyStr s) = True"
| "isinstance_str v = False"

text \<open>
  \<^verbatim>\<open>isinstance(v, int)\<close> together with the integer the value then denotes: \<open>bool\<close> is a
  subclass of \<open>int\<close> in Python, with \<open>False\<close> denoting 0 and \<open>True\<close> denoting 1.
  \<open>None\<close> of the result is a failed \<open>isinstance\<close>.
\<close>

fun as_int :: "pyval \<Rightarrow> int option" where
  "as_int (PyInt n) = Some n"
| "as_int (PyBool b) = Some (if b then 1 else 0)"
| "as_int v = None"

definition isinstance_int :: "pyval \<Rightarrow> bool" where
  "isinstance_int v = (as_int v \<noteq> None)"

text \<open>Equality of floats: a NaN equals nothing, itself included.\<close>

fun float_eq :: "pyfloat \<Rightarrow> pyfloat \<Rightarrow> bool" where
  "float_eq (Finite a) (Finite b) = (a = b)"
| "float_eq (Infinity s) (Infinity t) = (s = t)"
| "float_eq x y = False"

text \<open>
  Python's \<^verbatim>\<open>==\<close> on these values: numbers (bool, int, float) compare by the number
  they denote, strings with strings and bytes with bytes by content, \<open>None\<close> equals
  only \<open>None\<close>, and values of unrelated types are unequal.
\<close>

fun py_eq :: "pyval \<Rightarrow> pyval \<Rightarrow> bool" where
  "py_eq PyNone v = (v = PyNone)"
| "py_eq (PyStr s) v = (v = PyStr s)"
| "py_eq (PyBytes s) v = (v = PyBytes s)"
| "py_eq (PyFloat x) (PyFloat y) = float_eq x y"
| "py_eq (PyFloat x) v =
     (case as_int v of None \<Rightarrow> False | Some n \<Rightarrow> float_eq x (Finite (of_int n)))"
| "py_eq u (PyFloat y) =
     (case as_int u of None \<Rightarrow> False | Some m \<Rightarrow> float_eq (Finite (of_int m)) y)"
| "py_eq u v =
     (case as_int u of None \<Rightarrow> False
      | Some m \<Rightarrow> (case as_int v of None \<Rightarrow> False | Some n \<Rightarrow> m = n))"

text \<open>Truth value of an object, as \<^verbatim>\<open>if\<close>, \<^verbatim>\<open>and\<close> and \<^verbatim>\<open>not\<close> take it.\<close>

fun truthy :: "pyval \<Rightarrow> bool" where
  "truthy PyNone = False"
| "truthy (PyBool b) = b"
| "truthy (PyInt n) = (n \<noteq> 0)"
| "truthy (PyFloat x) = (\<not> float_eq x (Finite 0))"
| "truthy (PyStr s) = (s \<noteq> [])"
| "truthy (PyBytes s) = (s \<noteq> [])"

section \<open>Dictionaries\<close>

text \<open>
  A \<open>dict\<close> keeps its keys in insertion order, so it is an association list with
  distinct keys. \<^verbatim>\<open>d[k] = v\<close> replaces the value of a key already present where it
  stands and appends a new key at the end.
\<close>

type_synonym dict = "(string \<times> pyval) list"

fun dict_setitem :: "dict \<Rightarrow> string \<Rightarrow> pyval \<Rightarrow> dict" where
  "dict_setitem [] k v = [(k, v)]"
| "dict_setitem ((k', v') # d) k v =
     (if k' = k then (k, v) # d else (k', v') # dict_setitem d k v)"

definition dict_keys :: "dict \<Rightarrow> string list" where
  "dict_keys d = map fst d"

text \<open>
  \<^verbatim>\<open>a == b\<close> on dicts: the sizes agree, and every key of \<open>a\<close> is a key of \<open>b\<close> with
  an equal value. \<^verbatim>\<open>a != b\<close> is its negation. (CPython takes an object to be equal to
  itself before it calls \<^verbatim>\<open>==\<close>, which shows on a NaN only; no document holds a
  float.)
\<close>

definition dict_eq :: "dict \<Rightarrow> dict \<Rightarrow> bool" where
  "dict_eq a b =
     (length a = length b \<and>
      list_all (\<lambda>(k, v). case map_of b k of None \<Rightarrow> False | Some v' \<Rightarrow> py_eq v v') a)"

section \<open>The class WriteConcern\<close>

datatype error =
    TypeError string
  | ValueError string
  | ConfigurationError string

text \<open>The three slots of an instance.\<close>

record WriteConcern =
  document_slot :: dict
  acknowledged_slot :: bool
  server_default_slot :: bool

subsection \<open>The constructor, block by block\<close>

text \<open>Lines 60 to 65: the \<open>wtimeout\<close> block.\<close>

definition init_wtimeout :: "pyval \<Rightarrow> dict \<Rightarrow> error + dict" where
  "init_wtimeout wtimeout doc =
     (if wtimeout \<noteq> PyNone then
        (case as_int wtimeout of
           None \<Rightarrow> Inl (TypeError ''wtimeout must be an integer'')
         | Some n \<Rightarrow>
             if n < 0 then Inl (ValueError ''wtimeout cannot be less than 0'')
             else Inr (dict_setitem doc ''wtimeout'' wtimeout))
      else Inr doc)"

text \<open>Lines 67 to 70: the \<open>j\<close> block.\<close>

definition init_j :: "pyval \<Rightarrow> dict \<Rightarrow> error + dict" where
  "init_j j doc =
     (if j \<noteq> PyNone then
        (if \<not> isinstance_bool j then Inl (TypeError ''j must be True or False'')
         else Inr (dict_setitem doc ''j'' j))
      else Inr doc)"

text \<open>Lines 72 to 77: the \<open>fsync\<close> block, with the test \<^verbatim>\<open>j and fsync\<close>.\<close>

definition init_fsync :: "pyval \<Rightarrow> pyval \<Rightarrow> dict \<Rightarrow> error + dict" where
  "init_fsync j fsync doc =
     (if fsync \<noteq> PyNone then
        (if \<not> isinstance_bool fsync then Inl (TypeError ''fsync must be True or False'')
         else if truthy j \<and> truthy fsync
           then Inl (ConfigurationError ''Can't set both j and fsync at the same time'')
         else Inr (dict_setitem doc ''fsync'' fsync))
      else Inr doc)"

text \<open>
  Lines 82 to 89: the \<open>w\<close> block, on the document and the acknowledged flag. An
  \<open>int\<close> (or \<open>bool\<close>) sets the flag to \<^verbatim>\<open>w > 0\<close>; a string leaves it.
\<close>

definition init_w :: "pyval \<Rightarrow> dict \<times> bool \<Rightarrow> error + dict \<times> bool" where
  "init_w w st =
     (if w \<noteq> PyNone then
        (case as_int w of
           Some n \<Rightarrow>
             if n < 0 then Inl (ValueError ''w cannot be less than 0'')
             else Inr (dict_setitem (fst st) ''w'' w, n > 0)
         | None \<Rightarrow>
             if \<not> isinstance_str w then Inl (TypeError ''w must be an integer or string'')
             else Inr (dict_setitem (fst st) ''w'' w, snd st))
      else Inr st)"

text \<open>
  \<^verbatim>\<open>WriteConcern.__init__\<close>: the document starts empty and the flag true; the blocks
  run in the order of the source, the first \<^verbatim>\<open>raise\<close> ends the construction
  (\<open>Inl\<close>), and line 79 tests \<^verbatim>\<open>w == 0 and j is True\<close> between the \<open>fsync\<close> and the
  \<open>w\<close> block. Line 91 sets the last slot to \<^verbatim>\<open>not self.__document\<close>.
\<close>

definition WriteConcern_init ::
  "pyval \<Rightarrow> pyval \<Rightarrow> pyval \<Rightarrow> pyval \<Rightarrow> error + WriteConcern" where
  "WriteConcern_init w wtimeout j fsync =
     (case init_wtimeout wtimeout [] of
        Inl e \<Rightarrow> Inl e
      | Inr d1 \<Rightarrow>
         (case init_j j d1 of
            Inl e \<Rightarrow> Inl e
          | Inr d2 \<Rightarrow>
             (case init_fsync j fsync d2 of
                Inl e \<Rightarrow> Inl e
              | Inr d3 \<Rightarrow>
                 (if py_eq w (PyInt 0) \<and> j = PyBool True
                    then Inl (ConfigurationError ''Cannot set w to 0 and j to True'')
                  else
                    (case init_w w (d3, True) of
                       Inl e \<Rightarrow> Inl e
                     | Inr st \<Rightarrow>
                         Inr \<lparr>document_slot = fst st, acknowledged_slot = snd st,
                              server_default_slot = (fst st = [])\<rparr>)))))"

subsection \<open>The properties\<close>

definition is_server_default :: "WriteConcern \<Rightarrow> bool" where
  "is_server_default c = server_default_slot c"

text \<open>\<^verbatim>\<open>self.__document.copy()\<close>: as a value, the copy is the dictionary itself.\<close>

definition document :: "WriteConcern \<Rightarrow> dict" where
  "document c = document_slot c"

definition acknowledged :: "WriteConcern \<Rightarrow> bool" where
  "acknowledged c = acknowledged_slot c"

text \<open>
  \<^verbatim>\<open>__eq__\<close> and \<^verbatim>\<open>__ne__\<close>: the other operand is a WriteConcern or some other
  object, for which the result is \<open>NotImplemented\<close> (\<open>None\<close> here).
\<close>

datatype operand = Concern WriteConcern | Other pyval

fun WriteConcern_eq :: "WriteConcern \<Rightarrow> operand \<Rightarrow> bool option" where
  "WriteConcern_eq c (Concern other) = Some (dict_eq (document_slot c) (document other))"
| "WriteConcern_eq c (Other v) = None"

fun WriteConcern_ne :: "WriteConcern \<Rightarrow> operand \<Rightarrow> bool option" where
  "WriteConcern_ne c (Concern other) = Some (\<not> dict_eq (document_slot c) (document other))"
| "WriteConcern_ne c (Other v) = None"

text \<open>Line 129: the module constant, built once with no argument.\<close>

definition DEFAULT_WRITE_CONCERN :: "error + WriteConcern" where
  "DEFAULT_WRITE_CONCERN = WriteConcern_init PyNone PyNone PyNone PyNone"

section \<open>The instance on the heap\<close>

text \<open>
  \<open>document\<close> hands out a dict object, which the caller can change in place. Whether
  that reaches the instance depends on which objects are shared, so here the dicts live
  in a store: a list of dict objects, the address of an object being its index. A new
  object goes to the end; no object is ever freed while it is referenced.
\<close>

type_synonym store = "dict list"

record WriteConcern_ref =
  document_addr :: nat
  acknowledged_val :: bool
  server_default_val :: bool

text \<open>
  The constructor allocates the dict of line 57 and fills it as above. No other object
  refers to that dict while the constructor runs, so the model stores it once filled.
\<close>

definition WriteConcern_new ::
  "store \<Rightarrow> pyval \<Rightarrow> pyval \<Rightarrow> pyval \<Rightarrow> pyval \<Rightarrow> error + WriteConcern_ref \<times> store" where
  "WriteConcern_new s w wtimeout j fsync =
     (case WriteConcern_init w wtimeout j fsync of
        Inl e \<Rightarrow> Inl e
      | Inr c \<Rightarrow>
          Inr (\<lparr>document_addr = length s, acknowledged_val = acknowledged_slot c,
                server_default_val = server_default_slot c\<rparr>,
               s @ [document_slot c]))"

text \<open>
  \<^verbatim>\<open>d.copy()\<close>: a new dict object with the items of the dict at address \<open>a\<close>. The
  copy is shallow, and the values of this model are immutable. An address that is not
  allocated cannot be held by a Python object; the model answers \<open>None\<close> there.
\<close>

definition dict_copy :: "store \<Rightarrow> nat \<Rightarrow> (nat \<times> store) option" where
  "dict_copy s a = (if a < length s then Some (length s, s @ [s ! a]) else None)"

text \<open>Line 106: \<^verbatim>\<open>return self.__document.copy()\<close>.\<close>

definition document_st :: "store \<Rightarrow> WriteConcern_ref \<Rightarrow> (nat \<times> store) option" where
  "document_st s r = dict_copy s (document_addr r)"

text \<open>
  What a caller can do with an instance: read \<open>document\<close> once more, or change in place
  one of the dicts it was handed (\<open>Mutate i g\<close> applies \<open>g\<close>, any change of a dict, to
  the \<open>i\<close>-th dict returned so far). The state is the store with the addresses of the
  dicts returned so far.
\<close>

datatype action = Call_document | Mutate nat "dict \<Rightarrow> dict"

fun step :: "WriteConcern_ref \<Rightarrow> store \<times> nat list \<Rightarrow> action \<Rightarrow> store \<times> nat list" where
  "step r (s, rs) Call_document =
     (case document_st s r of None \<Rightarrow> (s, rs) | Some (a, s') \<Rightarrow> (s', rs @ [a]))"
| "step r (s, rs) (Mutate i g) =
     (if i < length rs \<and> rs ! i < length s then (s[rs ! i := g (s ! (rs ! i))], rs)
      else (s, rs))"

definition run :: "WriteConcern_ref \<Rightarrow> store \<times> nat list \<Rightarrow> action list \<Rightarrow> store \<times> nat list" where
  "run r st acts = foldl (step r) st acts"

section \<open>The properties of the specification\<close>

text \<open>
  The fields that were supplied (not \<open>None\<close>), under their keys and in the order of
  validation.
\<close>

definition supplied :: "pyval \<Rightarrow> pyval \<Rightarrow> pyval \<Rightarrow> pyval \<Rightarrow> dict" where
  "supplied w wtimeout j fsync =
     filter (\<lambda>(k, v). v \<noteq> PyNone)
       [(''wtimeout'', wtimeout), (''j'', j), (''fsync'', fsync), (''w'', w)]"

text \<open>The three kinds of failure, and the kind of an exception.\<close>

datatype kind = TypeKind | RangeKind | ConfigurationKind

fun kind_of :: "error \<Rightarrow> kind" where
  "kind_of (TypeError m) = TypeKind"
| "kind_of (ValueError m) = RangeKind"
| "kind_of (ConfigurationError m) = ConfigurationKind"

definition failure_kind :: "error + 'a \<Rightarrow> kind option" where
  "failure_kind r = (case r of Inl e \<Rightarrow> Some (kind_of e) | Inr c \<Rightarrow> None)"

text \<open>
  The validation rules of the specification, each read on its own, on the arguments as
  they were passed: the kind of its violation, or \<open>None\<close> when the rule holds. An
  integer is an instance of \<open>int\<close>; the conflict of \<open>j\<close> with \<open>fsync\<close> and the conflict
  of \<open>w\<close> with \<open>j\<close> ask for a truthy \<open>j\<close>; \<open>w\<close> is 0 when it equals 0 by value.
\<close>

definition rule_wtimeout :: "pyval \<Rightarrow> kind option" where
  "rule_wtimeout wtimeout =
     (if wtimeout = PyNone then None
      else case as_int wtimeout of
             None \<Rightarrow> Some TypeKind
           | Some n \<Rightarrow> if n < 0 then Some RangeKind else None)"

definition rule_j :: "pyval \<Rightarrow> kind option" where
  "rule_j j = (if j = PyNone \<or> isinstance_bool j then None else Some TypeKind)"

definition rule_fsync :: "pyval \<Rightarrow> pyval \<Rightarrow> kind option" where
  "rule_fsync j fsync =
     (if fsync = PyNone then None
      else if \<not> isinstance_bool fsync then Some TypeKind
      else if truthy j \<and> truthy fsync then Some ConfigurationKind
      else None)"

definition rule_w_zero_j :: "pyval \<Rightarrow> pyval \<Rightarrow> kind option" where
  "rule_w_zero_j w j = (if py_eq w (PyInt 0) \<and> truthy j then Some ConfigurationKind else None)"

definition rule_w :: "pyval \<Rightarrow> kind option" where
  "rule_w w =
     (if w = PyNone then None
      else case as_int w of
             Some n \<Rightarrow> if n < 0 then Some RangeKind else None
           | None \<Rightarrow> if isinstance_str w then None else Some TypeKind)"

text \<open>The rules in their fixed order, and the first violation of a list of rules.\<close>

definition violations :: "pyval \<Rightarrow> pyval \<Rightarrow> pyval \<Rightarrow> pyval \<Rightarrow> kind option list" where
  "violations w wtimeout j fsync =
     [rule_wtimeout wtimeout, rule_j j, rule_fsync j fsync, rule_w_zero_j w j, rule_w w]"

fun first_violation :: "kind option list \<Rightarrow> kind option" where
  "first_violation [] = None"
| "first_violation (None # rs) = first_violation rs"
| "first_violation (Some k # rs) = Some k"

text \<open>
  The single conditions of failure: a value of the wrong shape, a negative number, and
  the two conflicts. An integer is an instance of \<open>int\<close>, a boolean included.
\<close>

definition wrong_shape_wtimeout :: "pyval \<Rightarrow> bool" where
  "wrong_shape_wtimeout wtimeout = (wtimeout \<noteq> PyNone \<and> \<not> isinstance_int wtimeout)"

definition wrong_shape_flag :: "pyval \<Rightarrow> bool" where
  "wrong_shape_flag v = (v \<noteq> PyNone \<and> \<not> isinstance_bool v)"

definition wrong_shape_w :: "pyval \<Rightarrow> bool" where
  "wrong_shape_w w = (w \<noteq> PyNone \<and> \<not> isinstance_int w \<and> \<not> isinstance_str w)"

definition negative :: "pyval \<Rightarrow> bool" where
  "negative v = (case as_int v of None \<Rightarrow> False | Some n \<Rightarrow> n < 0)"

definition conflict_j_fsync :: "pyval \<Rightarrow> pyval \<Rightarrow> bool" where
  "conflict_j_fsync j fsync = (j = PyBool True \<and> fsync = PyBool True)"

definition conflict_w_j :: "pyval \<Rightarrow> pyval \<Rightarrow> bool" where
  "conflict_w_j w j = (py_eq w (PyInt 0) \<and> j = PyBool True)"

text \<open>
  Two dicts agree as mappings under a relation on values: the same set of keys, and
  under each key related values, whatever the order of the items.
\<close>

definition mapping_rel :: "(pyval \<Rightarrow> pyval \<Rightarrow> bool) \<Rightarrow> dict \<Rightarrow> dict \<Rightarrow> bool" where
  "mapping_rel R a b =
     (set (dict_keys a) = set (dict_keys b) \<and>
      list_all (\<lambda>k. rel_option R (map_of a k) (map_of b k)) (dict_keys a))"

text \<open>Equal as mappings: the same set of keys and, under each key, the same value.\<close>

definition same_mapping :: "dict \<Rightarrow> dict \<Rightarrow> bool" where
  "same_mapping a b = mapping_rel (\<lambda>u v. u = v) a b"

text \<open>
  Two values are alike when they are the same value, or when both are instances of
  \<open>int\<close> (integers or booleans) that denote the same number, as 1 and \<open>True\<close> or 0
  and \<open>False\<close> do; two dicts are alike as mappings when they have the same set of keys
  and, under each key, values that are alike.
\<close>

definition alike :: "pyval \<Rightarrow> pyval \<Rightarrow> bool" where
  "alike u v = (u = v \<or> (as_int u \<noteq> None \<and> as_int u = as_int v))"

definition alike_mapping :: "dict \<Rightarrow> dict \<Rightarrow> bool" where
  "alike_mapping a b = mapping_rel alike a b"

text \<open>
  The values a document can hold (integers, booleans and strings), and the dicts with
  distinct keys and such values.
\<close>

definition scalar :: "pyval \<Rightarrow> bool" where
  "scalar v = (isinstance_int v \<or> isinstance_str v)"

definition scalar_dict :: "dict \<Rightarrow> bool" where
  "scalar_dict d = (distinct (dict_keys d) \<and> list_all (\<lambda>(k, v). scalar v) d)"

text \<open>
  The state of a caller leaves the instance intact: the dict of the instance is
  allocated and holds \<open>d\<close>, and the dicts handed out are allocated, pairwise distinct
  and distinct from the dict of the instance.
\<close>

definition intact :: "dict \<Rightarrow> WriteConcern_ref \<Rightarrow> store \<times> nat list \<Rightarrow> bool" where
  "intact d r st =
     (document_addr r < length (fst st) \<and> fst st ! document_addr r = d \<and>
      distinct (snd st) \<and>
      list_all (\<lambda>a. a < length (fst st) \<and> a \<noteq> document_addr r) (snd st))"

section \<open>What a successful construction stores\<close>

text \<open>The constructor unfolds to its blocks.\<close>

lemmas init_defs =
  WriteConcern_init_def init_wtimeout_def init_j_def init_fsync_def init_w_def

text \<open>A block that does not raise leaves the document with at most one more item.\<close>

lemma init_wtimeout_Inr:
  "init_wtimeout wtimeout doc = Inr d \<Longrightarrow>
     d = (if wtimeout = PyNone then doc else dict_setitem doc ''wtimeout'' wtimeout)"
  by (auto simp: init_wtimeout_def split: if_splits option.splits)

lemma init_j_Inr:
  "init_j j doc = Inr d \<Longrightarrow> d = (if j = PyNone then doc else dict_setitem doc ''j'' j)"
  by (auto simp: init_j_def split: if_splits)

lemma init_fsync_Inr:
  "init_fsync j fsync doc = Inr d \<Longrightarrow>
     d = (if fsync = PyNone then doc else dict_setitem doc ''fsync'' fsync)"
  by (auto simp: init_fsync_def split: if_splits)

lemma init_w_Inr:
  "init_w w st = Inr st' \<Longrightarrow>
     fst st' = (if w = PyNone then fst st else dict_setitem (fst st) ''w'' w) \<and>
     snd st' = (case as_int w of None \<Rightarrow> snd st | Some n \<Rightarrow> 0 < n)"
  by (auto simp: init_w_def split: if_splits option.splits)

text \<open>A construction that succeeds went through every block.\<close>

lemma init_Inr_steps:
  assumes "WriteConcern_init w wtimeout j fsync = Inr c"
  obtains d1 d2 d3 st where
    "init_wtimeout wtimeout [] = Inr d1" and "init_j j d1 = Inr d2" and
    "init_fsync j fsync d2 = Inr d3" and "init_w w (d3, True) = Inr st" and
    "c = \<lparr>document_slot = fst st, acknowledged_slot = snd st,
          server_default_slot = (fst st = [])\<rparr>"
  using assms by (auto simp: WriteConcern_init_def split: sum.splits if_splits)

lemma init_Inr_document: 
  assumes "WriteConcern_init w wtimeout j fsync = Inr c"
  shows "document_slot c = supplied w wtimeout j fsync"
proof -
  from assms obtain d1 d2 d3 st where
    s1: "init_wtimeout wtimeout [] = Inr d1" and s2: "init_j j d1 = Inr d2" and
    s3: "init_fsync j fsync d2 = Inr d3" and s4: "init_w w (d3, True) = Inr st" and
    c: "c = \<lparr>document_slot = fst st, acknowledged_slot = snd st,
              server_default_slot = (fst st = [])\<rparr>"
    by (rule init_Inr_steps)
  from init_wtimeout_Inr[OF s1] init_j_Inr[OF s2] init_fsync_Inr[OF s3] init_w_Inr[OF s4]
  show ?thesis by (simp add: c supplied_def)
qed

lemma init_Inr_acknowledged:
  assumes "WriteConcern_init w wtimeout j fsync = Inr c"
  shows "acknowledged_slot c = (case as_int w of None \<Rightarrow> True | Some n \<Rightarrow> 0 < n)"
proof -
  from assms obtain d3 st where s4: "init_w w (d3, True) = Inr st" and "acknowledged_slot c = snd st"
    by (rule init_Inr_steps) simp
  with init_w_Inr[OF s4] show ?thesis by (simp split: option.splits)
qed

lemma init_Inr_server_default:
  assumes "WriteConcern_init w wtimeout j fsync = Inr c"
  shows "server_default_slot c = (document_slot c = [])"
  using assms by (rule init_Inr_steps) simp

lemma init_Inr_nonneg:
  assumes "WriteConcern_init w wtimeout j fsync = Inr c" and "as_int w = Some n"
  shows "0 \<le> n"
proof -
  from assms(1) obtain d3 st where "init_w w (d3, True) = Inr st"
    by (rule init_Inr_steps)
  with assms(2) show ?thesis by (auto simp: init_w_def split: if_splits)
qed

section \<open>The acknowledged flag\<close>

text \<open>
  \<^verbatim>\<open>WriteConcern(w=False)\<close> is constructed, since \<open>False\<close> is an instance of \<open>int\<close>, and
  \<^verbatim>\<open>False > 0\<close> is false: the instance is not acknowledged although \<open>w\<close> is not the
  integer 0 but the boolean \<open>False\<close>.
\<close>

theorem acknowledged_false_counterexample:
  "WriteConcern_init (PyBool False) PyNone PyNone PyNone =
     Inr \<lparr>document_slot = [(''w'', PyBool False)], acknowledged_slot = False,
          server_default_slot = False\<rparr> \<and>
   \<not> acknowledged \<lparr>document_slot = [(''w'', PyBool False)], acknowledged_slot = False,
          server_default_slot = False\<rparr> \<and>
   PyBool False \<noteq> PyInt 0"
  by (simp add: init_defs acknowledged_def)

text \<open>
  C1, amended: for every successful construction, \<open>acknowledged\<close> is false if and
  only if \<open>w\<close> was supplied as the integer 0 or as the boolean \<open>False\<close> (the instances
  of \<open>int\<close> of value 0); it is true in every other case: \<open>w\<close> absent, a positive
  integer, \<open>True\<close>, or any string.
\<close>

theorem acknowledged_iff_not_zero:
  assumes "WriteConcern_init w wtimeout j fsync = Inr c"
  shows "(\<not> acknowledged c) = (w = PyInt 0 \<or> w = PyBool False)"
proof (cases "as_int w")
  case None
  then have "w \<noteq> PyInt 0" "w \<noteq> PyBool False" by auto
  with None init_Inr_acknowledged[OF assms] show ?thesis by (simp add: acknowledged_def)
next
  case (Some n)
  from init_Inr_nonneg[OF assms Some] have "0 \<le> n" .
  moreover from Some have "(n = 0) = (w = PyInt 0 \<or> w = PyBool False)"
    by (cases w) (auto split: if_splits)
  ultimately show ?thesis
    using Some init_Inr_acknowledged[OF assms] by (auto simp: acknowledged_def)
qed

theorem acknowledged_iff_not_zero_witness:
  "WriteConcern_init (PyInt 0) PyNone PyNone (PyBool True) =
     Inr \<lparr>document_slot = [(''fsync'', PyBool True), (''w'', PyInt 0)], acknowledged_slot = False,
          server_default_slot = False\<rparr> \<and>
   (\<not> acknowledged \<lparr>document_slot = [(''fsync'', PyBool True), (''w'', PyInt 0)],
          acknowledged_slot = False, server_default_slot = False\<rparr>) =
     (PyInt 0 = PyInt 0 \<or> PyInt 0 = PyBool False)"
proof -
  have h: "WriteConcern_init (PyInt 0) PyNone PyNone (PyBool True) =
     Inr \<lparr>document_slot = [(''fsync'', PyBool True), (''w'', PyInt 0)], acknowledged_slot = False,
          server_default_slot = False\<rparr>"
    by (simp add: init_defs)
  from acknowledged_iff_not_zero[OF h] h show ?thesis by simp
qed

section \<open>The document\<close>

text \<open>
  C4: for every successful construction, \<open>document\<close> holds exactly the fields that were
  supplied (no absent parameter appears), under the keys \<open>w\<close>, \<open>wtimeout\<close>, \<open>j\<close>,
  \<open>fsync\<close>, with the supplied values unchanged, in the order of validation: \<open>wtimeout\<close>,
  \<open>j\<close>, \<open>fsync\<close>, \<open>w\<close>.
\<close>

theorem document_holds_supplied:
  assumes "WriteConcern_init w wtimeout j fsync = Inr c"
  shows "document c = supplied w wtimeout j fsync"
  using init_Inr_document[OF assms] by (simp add: document_def)

theorem document_holds_supplied_witness:
  "WriteConcern_init (PyInt 3) (PyInt 5000) (PyBool False) PyNone =
     Inr \<lparr>document_slot = [(''wtimeout'', PyInt 5000), (''j'', PyBool False), (''w'', PyInt 3)],
          acknowledged_slot = True, server_default_slot = False\<rparr> \<and>
   document \<lparr>document_slot = [(''wtimeout'', PyInt 5000), (''j'', PyBool False), (''w'', PyInt 3)],
          acknowledged_slot = True, server_default_slot = False\<rparr> =
     [(''wtimeout'', PyInt 5000), (''j'', PyBool False), (''w'', PyInt 3)]"
proof -
  have h: "WriteConcern_init (PyInt 3) (PyInt 5000) (PyBool False) PyNone =
     Inr \<lparr>document_slot = [(''wtimeout'', PyInt 5000), (''j'', PyBool False), (''w'', PyInt 3)],
          acknowledged_slot = True, server_default_slot = False\<rparr>"
    by (simp add: init_defs)
  from document_holds_supplied[OF h] h show ?thesis by (simp add: supplied_def)
qed

text \<open>
  C5: for every constructed instance, the shared default constant included,
  \<open>is_server_default\<close> is true if and only if \<open>document\<close> is the empty mapping.
\<close>

theorem server_default_iff_empty:
  "(WriteConcern_init w wtimeout j fsync = Inr c \<longrightarrow>
      is_server_default c = (document c = [])) \<and>
   (DEFAULT_WRITE_CONCERN = Inr c \<longrightarrow> is_server_default c = (document c = []))"
  using init_Inr_server_default[of w wtimeout j fsync c]
    init_Inr_server_default[of PyNone PyNone PyNone PyNone c]
  by (simp add: is_server_default_def document_def DEFAULT_WRITE_CONCERN_def)

theorem server_default_iff_empty_witness:
  "WriteConcern_init (PyStr ''majority'') PyNone PyNone PyNone =
     Inr \<lparr>document_slot = [(''w'', PyStr ''majority'')], acknowledged_slot = True,
          server_default_slot = False\<rparr> \<and>
   is_server_default \<lparr>document_slot = [(''w'', PyStr ''majority'')], acknowledged_slot = True,
          server_default_slot = False\<rparr> =
     (document \<lparr>document_slot = [(''w'', PyStr ''majority'')], acknowledged_slot = True,
          server_default_slot = False\<rparr> = []) \<and>
   DEFAULT_WRITE_CONCERN =
     Inr \<lparr>document_slot = [], acknowledged_slot = True, server_default_slot = True\<rparr> \<and>
   is_server_default \<lparr>document_slot = [], acknowledged_slot = True, server_default_slot = True\<rparr> =
     (document \<lparr>document_slot = [], acknowledged_slot = True, server_default_slot = True\<rparr> = [])"
proof -
  have h1: "WriteConcern_init (PyStr ''majority'') PyNone PyNone PyNone =
     Inr \<lparr>document_slot = [(''w'', PyStr ''majority'')], acknowledged_slot = True,
          server_default_slot = False\<rparr>"
    by (simp add: init_defs)
  have h2: "DEFAULT_WRITE_CONCERN =
     Inr \<lparr>document_slot = [], acknowledged_slot = True, server_default_slot = True\<rparr>"
    by (simp add: DEFAULT_WRITE_CONCERN_def init_defs)
  from server_default_iff_empty[of "PyStr ''majority''" PyNone PyNone PyNone
      "\<lparr>document_slot = [(''w'', PyStr ''majority'')], acknowledged_slot = True,
          server_default_slot = False\<rparr>"]
    server_default_iff_empty[of PyNone PyNone PyNone PyNone
      "\<lparr>document_slot = [], acknowledged_slot = True, server_default_slot = True\<rparr>"]
    h1 h2
  show ?thesis by simp
qed

text \<open>
  C9: a construction with no argument, and the shared default constant, both yield an
  instance whose \<open>document\<close> is empty, whose \<open>acknowledged\<close> is true and whose
  \<open>is_server_default\<close> is true.
\<close>

theorem default_write_concern:
  "\<exists>c. WriteConcern_init PyNone PyNone PyNone PyNone = Inr c \<and> DEFAULT_WRITE_CONCERN = Inr c \<and>
       document c = [] \<and> acknowledged c \<and> is_server_default c"
  by (simp add: DEFAULT_WRITE_CONCERN_def init_defs document_def acknowledged_def is_server_default_def)

text \<open>
  C10: booleans pass where integers are expected, since a \<open>bool\<close> is an instance of
  \<open>int\<close> and \<^verbatim>\<open>w == 0\<close> compares by value. \<^verbatim>\<open>WriteConcern(wtimeout=True)\<close> succeeds and
  records \<open>True\<close>; \<^verbatim>\<open>WriteConcern(w=False)\<close> succeeds, is not acknowledged and has the
  document \<open>{w: False}\<close>; \<^verbatim>\<open>WriteConcern(w=False, j=True)\<close> fails with a
  ConfigurationError, not a TypeError.
\<close>

theorem bool_passes_as_int:
  "(\<exists>c. WriteConcern_init PyNone (PyBool True) PyNone PyNone = Inr c \<and>
        document c = [(''wtimeout'', PyBool True)]) \<and>
   (\<exists>c. WriteConcern_init (PyBool False) PyNone PyNone PyNone = Inr c \<and>
        \<not> acknowledged c \<and> document c = [(''w'', PyBool False)]) \<and>
   (\<exists>m. WriteConcern_init (PyBool False) PyNone (PyBool True) PyNone = Inl (ConfigurationError m))"
  by (simp add: init_defs document_def acknowledged_def)

section \<open>The order of validation\<close>

text \<open>Each block raises what its rule says, whatever the document so far.\<close>

lemma failure_kind_simps [simp]:
  "failure_kind (Inl e) = Some (kind_of e)" "failure_kind (Inr x) = None"
  by (simp_all add: failure_kind_def)

lemma init_wtimeout_kind: "failure_kind (init_wtimeout wtimeout doc) = rule_wtimeout wtimeout"
  by (simp add: init_wtimeout_def rule_wtimeout_def split: option.splits)

lemma init_j_kind: "failure_kind (init_j j doc) = rule_j j"
  by (simp add: init_j_def rule_j_def)

lemma init_fsync_kind: "failure_kind (init_fsync j fsync doc) = rule_fsync j fsync"
  by (simp add: init_fsync_def rule_fsync_def)

lemma init_w_kind: "failure_kind (init_w w st) = rule_w w"
  by (simp add: init_w_def rule_w_def split: option.splits)

text \<open>Once the rule of \<open>j\<close> holds, \<open>j\<close> is truthy exactly when it is \<open>True\<close>.\<close>

lemma rule_j_truthy: "rule_j j = None \<Longrightarrow> truthy j = (j = PyBool True)"
  by (cases j) (auto simp: rule_j_def split: if_splits)

lemma failure_kind_None: "failure_kind r = None \<Longrightarrow> \<exists>x. r = Inr x"
  by (cases r) simp_all

lemma init_failure_kind:
  "failure_kind (WriteConcern_init w wtimeout j fsync) =
     first_violation (violations w wtimeout j fsync)"
proof (cases "rule_wtimeout wtimeout")
  case (Some k)
  then obtain e where "init_wtimeout wtimeout [] = Inl e" "kind_of e = k"
    using init_wtimeout_kind[of wtimeout "[]"] by (cases "init_wtimeout wtimeout []") auto
  with Some show ?thesis by (simp add: WriteConcern_init_def violations_def)
next
  case wt: None
  then obtain d1 where d1: "init_wtimeout wtimeout [] = Inr d1"
    using init_wtimeout_kind[of wtimeout "[]"] failure_kind_None by metis
  show ?thesis
  proof (cases "rule_j j")
    case (Some k)
    then obtain e where "init_j j d1 = Inl e" "kind_of e = k"
      using init_j_kind[of j d1] by (cases "init_j j d1") auto
    with Some wt d1 show ?thesis by (simp add: WriteConcern_init_def violations_def)
  next
    case rj: None
    then obtain d2 where d2: "init_j j d1 = Inr d2"
      using init_j_kind[of j d1] failure_kind_None by metis
    show ?thesis
    proof (cases "rule_fsync j fsync")
      case (Some k)
      then obtain e where "init_fsync j fsync d2 = Inl e" "kind_of e = k"
        using init_fsync_kind[of j fsync d2] by (cases "init_fsync j fsync d2") auto
      with Some wt rj d1 d2 show ?thesis by (simp add: WriteConcern_init_def violations_def)
    next
      case rf: None
      then obtain d3 where d3: "init_fsync j fsync d2 = Inr d3"
        using init_fsync_kind[of j fsync d2] failure_kind_None by metis
      have zero: "rule_w_zero_j w j =
          (if py_eq w (PyInt 0) \<and> j = PyBool True then Some ConfigurationKind else None)"
        by (simp add: rule_w_zero_j_def rule_j_truthy[OF rj])
      show ?thesis
      proof (cases "py_eq w (PyInt 0) \<and> j = PyBool True")
        case True
        with wt rj rf d1 d2 d3 zero show ?thesis
          by (simp add: WriteConcern_init_def violations_def)
      next
        case False
        have "failure_kind (WriteConcern_init w wtimeout j fsync) = failure_kind (init_w w (d3, True))"
          using False d1 d2 d3 by (cases "init_w w (d3, True)") (auto simp: WriteConcern_init_def)
        with False wt rj rf zero show ?thesis
          by (cases "rule_w w") (auto simp: violations_def init_w_kind)
      qed
    qed
  qed
qed

lemma init_Inr_iff_no_violation:
  "(\<exists>c. WriteConcern_init w wtimeout j fsync = Inr c) =
     (first_violation (violations w wtimeout j fsync) = None)"
proof -
  have "(\<exists>c. WriteConcern_init w wtimeout j fsync = Inr c) =
      (failure_kind (WriteConcern_init w wtimeout j fsync) = None)"
    by (cases "WriteConcern_init w wtimeout j fsync") simp_all
  then show ?thesis by (simp add: init_failure_kind)
qed

text \<open>The rules and the single conditions unfold to tests on the arguments.\<close>

lemmas rule_defs = violations_def rule_wtimeout_def rule_j_def rule_fsync_def
  rule_w_zero_j_def rule_w_def

lemmas cond_defs = wrong_shape_wtimeout_def wrong_shape_flag_def wrong_shape_w_def negative_def
  conflict_j_fsync_def conflict_w_j_def isinstance_int_def

text \<open>The first violation, kind by kind, in terms of the single conditions.\<close>

lemma flag_cases: "\<not> wrong_shape_flag v \<Longrightarrow> v = PyNone \<or> v = PyBool True \<or> v = PyBool False"
  by (cases v) (auto simp: wrong_shape_flag_def)

lemma first_violation_configuration:
  "(first_violation (violations w wtimeout j fsync) = Some ConfigurationKind) =
     (\<not> wrong_shape_wtimeout wtimeout \<and> \<not> negative wtimeout \<and> \<not> wrong_shape_flag fsync \<and>
      (conflict_j_fsync j fsync \<or> conflict_w_j w j))"
proof (cases "wrong_shape_flag j \<or> wrong_shape_flag fsync")
  case True
  then show ?thesis
    by (auto simp: rule_defs cond_defs split: option.splits if_splits)
next
  case False
  with flag_cases[of j] flag_cases[of fsync] show ?thesis
    by (auto simp: rule_defs cond_defs split: option.splits if_splits)
qed


lemma py_eq_zero_as_int: "py_eq w (PyInt 0) \<Longrightarrow> as_int w = Some n \<Longrightarrow> n = 0"
  by (cases w) (auto split: if_splits)

lemma first_violation_type:
  "(first_violation (violations w wtimeout j fsync) = Some TypeKind) =
     (wrong_shape_wtimeout wtimeout \<or>
      \<not> negative wtimeout \<and>
        (wrong_shape_flag j \<or> wrong_shape_flag fsync \<or>
         \<not> conflict_j_fsync j fsync \<and> \<not> conflict_w_j w j \<and> wrong_shape_w w))"
proof (cases "wrong_shape_flag j \<or> wrong_shape_flag fsync")
  case True
  then show ?thesis
    by (auto simp: rule_defs cond_defs split: option.splits if_splits)
next
  case False
  with flag_cases[of j] flag_cases[of fsync] show ?thesis
    by (auto simp: rule_defs cond_defs split: option.splits if_splits)
qed

lemma first_violation_range:
  "(first_violation (violations w wtimeout j fsync) = Some RangeKind) =
     (negative wtimeout \<or>
      \<not> wrong_shape_wtimeout wtimeout \<and> \<not> wrong_shape_flag j \<and> \<not> wrong_shape_flag fsync \<and>
      \<not> conflict_j_fsync j fsync \<and> negative w)"
proof (cases "wrong_shape_flag j \<or> wrong_shape_flag fsync")
  case True
  then show ?thesis
    by (auto simp: rule_defs cond_defs split: option.splits if_splits)
next
  case False
  with flag_cases[of j] flag_cases[of fsync] show ?thesis
    by (auto simp: rule_defs cond_defs dest: py_eq_zero_as_int split: option.splits if_splits)
qed

text \<open>
  C3: validation fails fast in the fixed order \<open>wtimeout\<close> checks, \<open>j\<close> checks, \<open>fsync\<close>
  checks (with the conflict of \<open>j\<close> and \<open>fsync\<close>), the conflict of \<^verbatim>\<open>w == 0\<close> with \<open>j\<close>,
  \<open>w\<close> checks: on every input, and so on every input that violates more than one rule,
  the construction fails with the kind of the earliest violated rule, and it yields an
  instance only when no rule is violated.
\<close>

theorem init_fails_fast:
  "failure_kind (WriteConcern_init w wtimeout j fsync) =
     first_violation (violations w wtimeout j fsync) \<and>
   (\<exists>c. WriteConcern_init w wtimeout j fsync = Inr c) =
     (first_violation (violations w wtimeout j fsync) = None)"
  by (simp add: init_failure_kind init_Inr_iff_no_violation)

theorem init_fails_fast_witness:
  "failure_kind (WriteConcern_init (PyInt (- 1)) (PyStr ''soon'') (PyInt 1) (PyBool True)) =
     Some TypeKind \<and>
   failure_kind (WriteConcern_init (PyInt 0) (PyInt (- 5)) (PyBool True) (PyBool True)) =
     Some RangeKind \<and>
   failure_kind (WriteConcern_init (PyInt 0) PyNone (PyBool True) (PyBool True)) =
     Some ConfigurationKind \<and>
   failure_kind (WriteConcern_init (PyBytes ''x'') PyNone (PyBool True) (PyInt 1)) =
     Some TypeKind \<and>
   (\<exists>c. WriteConcern_init (PyInt 1) PyNone (PyBool True) PyNone = Inr c)"
  using init_fails_fast[of "PyInt (- 1)" "PyStr ''soon''" "PyInt 1" "PyBool True"]
    init_fails_fast[of "PyInt 0" "PyInt (- 5)" "PyBool True" "PyBool True"]
    init_fails_fast[of "PyInt 0" PyNone "PyBool True" "PyBool True"]
    init_fails_fast[of "PyBytes ''x''" PyNone "PyBool True" "PyInt 1"]
    init_fails_fast[of "PyInt 1" PyNone "PyBool True" PyNone]
  by (simp add: rule_defs)

section \<open>The kinds of failure\<close>

text \<open>
  \<^verbatim>\<open>WriteConcern(wtimeout=-1, j=True, fsync=True)\<close> supplies \<open>j\<close> and \<open>fsync\<close> both
  true, and fails in the \<open>wtimeout\<close> block with a ValueError, not with a
  ConfigurationError.
\<close>

theorem configuration_error_counterexample:
  "conflict_j_fsync (PyBool True) (PyBool True) \<and>
   WriteConcern_init PyNone (PyInt (- 1)) (PyBool True) (PyBool True) =
     Inl (ValueError ''wtimeout cannot be less than 0'')"
  by (simp add: WriteConcern_init_def init_wtimeout_def conflict_j_fsync_def)

text \<open>
  C2, amended: the constructor fails with the configuration-error kind if and only if
  no earlier check fails (\<open>wtimeout\<close> is absent or a non-negative instance of \<open>int\<close>, and
  \<open>fsync\<close> is absent or a boolean) and either \<open>j\<close> and \<open>fsync\<close> are both supplied as true,
  or \<open>w\<close> equals 0 and \<open>j\<close> is supplied as true; in particular \<open>fsync=True\<close> with \<open>w=0\<close>
  and no \<open>j\<close> constructs successfully, whenever \<open>wtimeout\<close> passes its checks.
\<close>

theorem configuration_error_iff:
  "(failure_kind (WriteConcern_init w wtimeout j fsync) = Some ConfigurationKind) =
     (\<not> wrong_shape_wtimeout wtimeout \<and> \<not> negative wtimeout \<and> \<not> wrong_shape_flag fsync \<and>
      (conflict_j_fsync j fsync \<or> conflict_w_j w j)) \<and>
   (\<not> wrong_shape_wtimeout wtimeout \<and> \<not> negative wtimeout \<longrightarrow>
      (\<exists>c. WriteConcern_init (PyInt 0) wtimeout PyNone (PyBool True) = Inr c))"
proof -
  have "first_violation (violations (PyInt 0) wtimeout PyNone (PyBool True)) = None"
    if "\<not> wrong_shape_wtimeout wtimeout \<and> \<not> negative wtimeout"
    using that by (auto simp: rule_defs cond_defs split: option.splits)
  then show ?thesis
    by (simp add: init_failure_kind first_violation_configuration init_Inr_iff_no_violation)
qed

theorem configuration_error_iff_witness:
  "failure_kind (WriteConcern_init (PyInt 0) (PyInt 100) (PyBool True) PyNone) =
     Some ConfigurationKind \<and>
   (\<exists>c. WriteConcern_init (PyInt 0) (PyInt 100) PyNone (PyBool True) = Inr c)"
  using configuration_error_iff[of "PyInt 0" "PyInt 100" "PyBool True" PyNone]
  by (simp add: cond_defs)

text \<open>
  \<^verbatim>\<open>WriteConcern(wtimeout=-1, j='yes')\<close> supplies a \<open>j\<close> that is not a boolean, and
  fails in the \<open>wtimeout\<close> block with a ValueError, not with a TypeError.
\<close>

theorem type_error_counterexample:
  "wrong_shape_flag (PyStr ''yes'') \<and>
   WriteConcern_init PyNone (PyInt (- 1)) (PyStr ''yes'') PyNone =
     Inl (ValueError ''wtimeout cannot be less than 0'')"
  by (simp add: WriteConcern_init_def init_wtimeout_def wrong_shape_flag_def)

text \<open>
  C6, amended: the constructor fails with the kind of the first check that fails, in
  the order of validation, and an instance of \<open>int\<close> (a boolean included) counts as an
  integer. It fails with the type-error kind exactly when \<open>wtimeout\<close> is supplied and
  not an integer, or \<open>wtimeout\<close> is not negative and \<open>j\<close> or \<open>fsync\<close> is supplied and not
  a boolean, or neither is the case, no conflict is raised, and \<open>w\<close> is supplied and
  neither an integer nor a string. It fails with the range-error kind exactly when
  \<open>wtimeout\<close> is a negative integer, or \<open>wtimeout\<close>, \<open>j\<close> and \<open>fsync\<close> have the right
  shape, \<open>j\<close> and \<open>fsync\<close> are not both true, and \<open>w\<close> is a negative integer. Every
  failure has the type-error, the range-error or the configuration-error kind.
\<close>

theorem type_and_range_error_iff:
  "(failure_kind (WriteConcern_init w wtimeout j fsync) = Some TypeKind) =
     (wrong_shape_wtimeout wtimeout \<or>
      \<not> negative wtimeout \<and>
        (wrong_shape_flag j \<or> wrong_shape_flag fsync \<or>
         \<not> conflict_j_fsync j fsync \<and> \<not> conflict_w_j w j \<and> wrong_shape_w w)) \<and>
   (failure_kind (WriteConcern_init w wtimeout j fsync) = Some RangeKind) =
     (negative wtimeout \<or>
      \<not> wrong_shape_wtimeout wtimeout \<and> \<not> wrong_shape_flag j \<and> \<not> wrong_shape_flag fsync \<and>
      \<not> conflict_j_fsync j fsync \<and> negative w) \<and>
   (\<exists>e. WriteConcern_init w wtimeout j fsync = Inl e) =
     (failure_kind (WriteConcern_init w wtimeout j fsync) = Some TypeKind \<or>
      failure_kind (WriteConcern_init w wtimeout j fsync) = Some RangeKind \<or>
      failure_kind (WriteConcern_init w wtimeout j fsync) = Some ConfigurationKind)"
proof -
  have "(\<exists>e. r = Inl e) =
      (failure_kind r = Some TypeKind \<or> failure_kind r = Some RangeKind \<or>
       failure_kind r = Some ConfigurationKind)" for r :: "error + WriteConcern"
  proof (cases r)
    case (Inl e)
    then show ?thesis by (cases e) simp_all
  next
    case (Inr c)
    then show ?thesis by simp
  qed
  then show ?thesis
    by (simp add: init_failure_kind first_violation_type first_violation_range)
qed

theorem type_and_range_error_iff_witness:
  "failure_kind (WriteConcern_init (PyFloat (Finite 2)) (PyBool True) PyNone (PyBool False)) =
     Some TypeKind \<and>
   failure_kind (WriteConcern_init (PyInt (- 2)) PyNone (PyBool True) PyNone) = Some RangeKind"
  using type_and_range_error_iff[of "PyFloat (Finite 2)" "PyBool True" PyNone "PyBool False"]
    type_and_range_error_iff[of "PyInt (- 2)" PyNone "PyBool True" PyNone]
  by (simp add: cond_defs)

section \<open>Equality\<close>

text \<open>On scalars, Python's equality holds exactly for values that are alike.\<close>

lemma py_eq_alike: "scalar u \<Longrightarrow> scalar v \<Longrightarrow> py_eq u v = alike u v"
  by (cases u; cases v) (auto simp: scalar_def isinstance_int_def alike_def)

lemma alike_refl: "alike v v"
  by (simp add: alike_def)

lemma alike_sym: "alike u v \<Longrightarrow> alike v u"
  unfolding alike_def by metis

lemma alike_trans: "alike u v \<Longrightarrow> alike v x \<Longrightarrow> alike u x"
  unfolding alike_def by metis

text \<open>On dicts with distinct keys, \<^verbatim>\<open>==\<close> is agreement as mappings under \<^verbatim>\<open>==\<close>.\<close>

lemma dict_keys_map_of: "k \<in> set (dict_keys d) \<Longrightarrow> \<exists>v. map_of d k = Some v"
  by (induction d) (auto simp: dict_keys_def)

lemma map_of_dict_keys: "map_of d k = Some v \<Longrightarrow> k \<in> set (dict_keys d)"
  by (auto simp: dict_keys_def dest: map_of_SomeD intro: rev_image_eqI)

lemma card_dict_keys: "distinct (dict_keys d) \<Longrightarrow> card (set (dict_keys d)) = length d"
  using distinct_card[of "dict_keys d"] by (simp add: dict_keys_def)

lemma dict_eq_mapping_rel:
  assumes da: "distinct (dict_keys a)" and db: "distinct (dict_keys b)"
  shows "dict_eq a b = mapping_rel py_eq a b"
proof
  assume eq: "dict_eq a b"
  then have len: "length a = length b"
    and vals: "\<And>k v. (k, v) \<in> set a \<Longrightarrow> \<exists>v'. map_of b k = Some v' \<and> py_eq v v'"
    by (auto simp: dict_eq_def list_all_iff split: option.splits)
  have sub: "set (dict_keys a) \<subseteq> set (dict_keys b)"
  proof
    fix k assume "k \<in> set (dict_keys a)"
    then obtain v where "(k, v) \<in> set a" by (auto simp: dict_keys_def)
    with vals obtain v' where "map_of b k = Some v'" by blast
    then show "k \<in> set (dict_keys b)" by (rule map_of_dict_keys)
  qed
  have "card (set (dict_keys a)) = card (set (dict_keys b))"
    using len by (simp add: card_dict_keys[OF da] card_dict_keys[OF db])
  with sub have keys: "set (dict_keys a) = set (dict_keys b)"
    by (simp add: card_subset_eq)
  have "rel_option py_eq (map_of a k) (map_of b k)" if "k \<in> set (dict_keys a)" for k
  proof -
    from that obtain v where v: "map_of a k = Some v" using dict_keys_map_of by blast
    then have "(k, v) \<in> set a" by (rule map_of_SomeD)
    with vals obtain v' where "map_of b k = Some v'" "py_eq v v'" by blast
    with v show ?thesis by simp
  qed
  with keys show "mapping_rel py_eq a b" by (simp add: mapping_rel_def list_all_iff)
next
  assume sm: "mapping_rel py_eq a b"
  then have keys: "set (dict_keys a) = set (dict_keys b)"
    and rel: "\<And>k. k \<in> set (dict_keys a) \<Longrightarrow> rel_option py_eq (map_of a k) (map_of b k)"
    by (auto simp: mapping_rel_def list_all_iff)
  have len: "length a = length b"
    using keys card_dict_keys[OF da] card_dict_keys[OF db] by simp
  have "\<exists>v'. map_of b k = Some v' \<and> py_eq v v'" if kv: "(k, v) \<in> set a" for k v
  proof -
    from kv da have v: "map_of a k = Some v" by (simp add: dict_keys_def)
    from kv have "k \<in> set (dict_keys a)" by (auto simp: dict_keys_def intro: rev_image_eqI)
    from rel[OF this] v show ?thesis by (cases "map_of b k") simp_all
  qed
  with len show "dict_eq a b"
    by (fastforce simp: dict_eq_def list_all_iff split: option.splits)
qed

text \<open>On dicts of scalars, values related by \<^verbatim>\<open>==\<close> are values that are alike.\<close>

lemma scalar_dict_lookup: "scalar_dict d \<Longrightarrow> map_of d k = Some v \<Longrightarrow> scalar v"
  by (auto simp: scalar_dict_def list_all_iff dest: map_of_SomeD)

lemma rel_option_py_eq_alike:
  assumes "scalar_dict a" and "scalar_dict b"
  shows "rel_option py_eq (map_of a k) (map_of b k) = rel_option alike (map_of a k) (map_of b k)"
proof (cases "map_of a k")
  case None
  then show ?thesis by (cases "map_of b k") simp_all
next
  case u: (Some u)
  show ?thesis
  proof (cases "map_of b k")
    case None
    with u show ?thesis by simp
  next
    case (Some v)
    with u scalar_dict_lookup[OF assms(1) u] scalar_dict_lookup[OF assms(2) Some]
    show ?thesis by (simp add: py_eq_alike)
  qed
qed

lemma dict_eq_alike_mapping:
  assumes "scalar_dict a" and "scalar_dict b"
  shows "dict_eq a b = alike_mapping a b"
proof -
  from assms have "dict_eq a b = mapping_rel py_eq a b"
    by (simp add: scalar_dict_def dict_eq_mapping_rel)
  also have "\<dots> = mapping_rel alike a b"
    by (simp add: mapping_rel_def rel_option_py_eq_alike[OF assms])
  finally show ?thesis by (simp add: alike_mapping_def)
qed

text \<open>Being alike as mappings is an equivalence, and it holds of equal mappings.\<close>

lemma rel_option_alike_sym: "rel_option alike x y \<Longrightarrow> rel_option alike y x"
  by (cases x; cases y) (auto dest: alike_sym)

lemma rel_option_alike_trans:
  "rel_option alike x y \<Longrightarrow> rel_option alike y z \<Longrightarrow> rel_option alike x z"
  by (cases x; cases y; cases z) (auto dest: alike_trans)

lemma alike_mapping_refl: "alike_mapping a a"
proof -
  have "rel_option alike x x" for x by (cases x) (simp_all add: alike_refl)
  then show ?thesis by (simp add: alike_mapping_def mapping_rel_def list_all_iff)
qed

lemma alike_mapping_sym: "alike_mapping a b \<Longrightarrow> alike_mapping b a"
  by (auto simp: alike_mapping_def mapping_rel_def list_all_iff dest: rel_option_alike_sym)

lemma alike_mapping_trans:
  assumes "alike_mapping a b" and "alike_mapping b c"
  shows "alike_mapping a c"
proof -
  from assms have keys: "set (dict_keys a) = set (dict_keys b)" "set (dict_keys b) = set (dict_keys c)"
    by (simp_all add: alike_mapping_def mapping_rel_def)
  have "rel_option alike (map_of a k) (map_of c k)" if "k \<in> set (dict_keys a)" for k
  proof -
    from that assms(1) have "rel_option alike (map_of a k) (map_of b k)"
      by (simp add: alike_mapping_def mapping_rel_def list_all_iff)
    moreover from that keys assms(2) have "rel_option alike (map_of b k) (map_of c k)"
      by (simp add: alike_mapping_def mapping_rel_def list_all_iff)
    ultimately show ?thesis by (rule rel_option_alike_trans)
  qed
  with keys show ?thesis by (simp add: alike_mapping_def mapping_rel_def list_all_iff)
qed

lemma same_mapping_alike: "same_mapping a b \<Longrightarrow> alike_mapping a b"
proof -
  assume "same_mapping a b"
  then have keys: "set (dict_keys a) = set (dict_keys b)"
    and same: "\<And>k. k \<in> set (dict_keys a) \<Longrightarrow> rel_option (\<lambda>u v. u = v) (map_of a k) (map_of b k)"
    by (auto simp: same_mapping_def mapping_rel_def list_all_iff)
  have "rel_option alike (map_of a k) (map_of b k)" if "k \<in> set (dict_keys a)" for k
    using same[OF that] by (cases "map_of a k"; cases "map_of b k") (simp_all add: alike_refl)
  with keys show ?thesis by (simp add: alike_mapping_def mapping_rel_def list_all_iff)
qed

text \<open>The document of a constructed instance has distinct keys and scalar values.\<close>

lemma isinstance_bool_scalar: "isinstance_bool v \<Longrightarrow> scalar v"
  by (cases v) (auto simp: scalar_def isinstance_int_def)

lemma init_Inr_scalar_dict:
  assumes "WriteConcern_init w wtimeout j fsync = Inr c"
  shows "scalar_dict (document_slot c)"
proof -
  from assms have none: "first_violation (violations w wtimeout j fsync) = None"
    using init_Inr_iff_no_violation by blast
  have wt: "wtimeout = PyNone \<or> scalar wtimeout"
    using none by (auto simp: rule_defs scalar_def isinstance_int_def split: if_splits option.splits)
  have j: "j = PyNone \<or> scalar j"
    using none by (auto simp: rule_defs intro: isinstance_bool_scalar split: if_splits option.splits)
  have f: "fsync = PyNone \<or> scalar fsync"
    using none by (auto simp: rule_defs intro: isinstance_bool_scalar split: if_splits option.splits)
  have w: "w = PyNone \<or> scalar w"
    using none by (auto simp: rule_defs scalar_def isinstance_int_def split: if_splits option.splits)
  from wt j f w have "scalar_dict (supplied w wtimeout j fsync)"
    by (auto simp: scalar_dict_def supplied_def dict_keys_def)
  with init_Inr_document[OF assms] show ?thesis by simp
qed

text \<open>On constructed instances \<^verbatim>\<open>__eq__\<close> says that the documents are alike as mappings.\<close>

lemma init_Inr_eq:
  assumes "WriteConcern_init w wtimeout j fsync = Inr a"
    and "WriteConcern_init w' wtimeout' j' fsync' = Inr b"
  shows "WriteConcern_eq a (Concern b) = Some (alike_mapping (document a) (document b))"
  using init_Inr_scalar_dict[OF assms(1)] init_Inr_scalar_dict[OF assms(2)]
  by (simp add: document_def dict_eq_alike_mapping)

text \<open>
  \<^verbatim>\<open>WriteConcern(w=1) == WriteConcern(w=True)\<close> holds, since \<^verbatim>\<open>1 == True\<close> in Python,
  while the documents \<open>{w: 1}\<close> and \<open>{w: True}\<close> do not hold the same value under \<open>w\<close>.
\<close>

theorem eq_same_mapping_counterexample:
  "WriteConcern_init (PyInt 1) PyNone PyNone PyNone =
     Inr \<lparr>document_slot = [(''w'', PyInt 1)], acknowledged_slot = True,
          server_default_slot = False\<rparr> \<and>
   WriteConcern_init (PyBool True) PyNone PyNone PyNone =
     Inr \<lparr>document_slot = [(''w'', PyBool True)], acknowledged_slot = True,
          server_default_slot = False\<rparr> \<and>
   WriteConcern_eq
     \<lparr>document_slot = [(''w'', PyInt 1)], acknowledged_slot = True, server_default_slot = False\<rparr>
     (Concern \<lparr>document_slot = [(''w'', PyBool True)], acknowledged_slot = True,
          server_default_slot = False\<rparr>) = Some True \<and>
   \<not> same_mapping
     (document \<lparr>document_slot = [(''w'', PyInt 1)], acknowledged_slot = True,
          server_default_slot = False\<rparr>)
     (document \<lparr>document_slot = [(''w'', PyBool True)], acknowledged_slot = True,
          server_default_slot = False\<rparr>)"
  by (simp add: init_defs document_def dict_eq_def same_mapping_def mapping_rel_def dict_keys_def)

text \<open>
  C7, amended: for constructed instances, \<^verbatim>\<open>==\<close> holds if and only if the two
  documents have the same set of keys and, under each key, values that are the same
  or are an integer and a boolean (or two of them) denoting the same number, as 1 and
  \<open>True\<close>, in any order of the items; so it holds whenever the documents are equal as
  mappings. It is reflexive, symmetric and transitive, and \<^verbatim>\<open>!=\<close> is its exact
  negation.
\<close>

theorem eq_mirrors_document:
  assumes a: "WriteConcern_init w1 t1 j1 f1 = Inr a"
    and b: "WriteConcern_init w2 t2 j2 f2 = Inr b"
    and c: "WriteConcern_init w3 t3 j3 f3 = Inr c"
  shows "WriteConcern_eq a (Concern b) = Some (dict_eq (document a) (document b)) \<and>
    dict_eq (document a) (document b) = alike_mapping (document a) (document b) \<and>
    (same_mapping (document a) (document b) \<longrightarrow> WriteConcern_eq a (Concern b) = Some True) \<and>
    WriteConcern_eq a (Concern a) = Some True \<and>
    WriteConcern_eq b (Concern a) = WriteConcern_eq a (Concern b) \<and>
    (WriteConcern_eq a (Concern b) = Some True \<and> WriteConcern_eq b (Concern c) = Some True \<longrightarrow>
       WriteConcern_eq a (Concern c) = Some True) \<and>
    WriteConcern_ne a (Concern b) = Some (\<not> dict_eq (document a) (document b))"
proof -
  have ab: "WriteConcern_eq a (Concern b) = Some (alike_mapping (document a) (document b))"
    and ba: "WriteConcern_eq b (Concern a) = Some (alike_mapping (document b) (document a))"
    and bc: "WriteConcern_eq b (Concern c) = Some (alike_mapping (document b) (document c))"
    and ac: "WriteConcern_eq a (Concern c) = Some (alike_mapping (document a) (document c))"
    and aa: "WriteConcern_eq a (Concern a) = Some (alike_mapping (document a) (document a))"
    by (rule init_Inr_eq[OF a b] init_Inr_eq[OF b a] init_Inr_eq[OF b c] init_Inr_eq[OF a c]
        init_Inr_eq[OF a a])+
  have refl: "alike_mapping (document a) (document a)"
    by (rule alike_mapping_refl)
  have sym: "alike_mapping (document b) (document a) = alike_mapping (document a) (document b)"
    using alike_mapping_sym by blast
  have trans: "alike_mapping (document a) (document b) \<and> alike_mapping (document b) (document c) \<longrightarrow>
      alike_mapping (document a) (document c)"
    using alike_mapping_trans by blast
  have same: "same_mapping (document a) (document b) \<longrightarrow> alike_mapping (document a) (document b)"
    using same_mapping_alike by blast
  have eq: "WriteConcern_eq a (Concern b) = Some (dict_eq (document a) (document b))"
    and ne: "WriteConcern_ne a (Concern b) = Some (\<not> dict_eq (document a) (document b))"
    by (simp_all add: document_def)
  from eq ab have "dict_eq (document a) (document b) = alike_mapping (document a) (document b)"
    by simp
  with eq ne refl sym trans same ab ba bc ac aa show ?thesis by simp
qed

theorem eq_mirrors_document_witness:
  "WriteConcern_init (PyInt 1) PyNone (PyBool False) PyNone =
     Inr \<lparr>document_slot = [(''j'', PyBool False), (''w'', PyInt 1)], acknowledged_slot = True,
          server_default_slot = False\<rparr> \<and>
   WriteConcern_init (PyBool True) PyNone (PyBool False) PyNone =
     Inr \<lparr>document_slot = [(''j'', PyBool False), (''w'', PyBool True)], acknowledged_slot = True,
          server_default_slot = False\<rparr> \<and>
   WriteConcern_init (PyInt 2) PyNone (PyBool False) PyNone =
     Inr \<lparr>document_slot = [(''j'', PyBool False), (''w'', PyInt 2)], acknowledged_slot = True,
          server_default_slot = False\<rparr> \<and>
   WriteConcern_eq
     \<lparr>document_slot = [(''j'', PyBool False), (''w'', PyInt 1)], acknowledged_slot = True,
          server_default_slot = False\<rparr>
     (Concern \<lparr>document_slot = [(''j'', PyBool False), (''w'', PyBool True)],
          acknowledged_slot = True, server_default_slot = False\<rparr>) = Some True \<and>
   WriteConcern_eq
     \<lparr>document_slot = [(''j'', PyBool False), (''w'', PyBool True)], acknowledged_slot = True,
          server_default_slot = False\<rparr>
     (Concern \<lparr>document_slot = [(''j'', PyBool False), (''w'', PyInt 1)],
          acknowledged_slot = True, server_default_slot = False\<rparr>) = Some True \<and>
   WriteConcern_ne
     \<lparr>document_slot = [(''j'', PyBool False), (''w'', PyInt 1)], acknowledged_slot = True,
          server_default_slot = False\<rparr>
     (Concern \<lparr>document_slot = [(''j'', PyBool False), (''w'', PyBool True)],
          acknowledged_slot = True, server_default_slot = False\<rparr>) = Some False \<and>
   WriteConcern_eq
     \<lparr>document_slot = [(''j'', PyBool False), (''w'', PyInt 2)], acknowledged_slot = True,
          server_default_slot = False\<rparr>
     (Concern \<lparr>document_slot = [(''j'', PyBool False), (''w'', PyInt 1)],
          acknowledged_slot = True, server_default_slot = False\<rparr>) = Some False \<and>
   WriteConcern_ne
     \<lparr>document_slot = [(''j'', PyBool False), (''w'', PyInt 2)], acknowledged_slot = True,
          server_default_slot = False\<rparr>
     (Concern \<lparr>document_slot = [(''j'', PyBool False), (''w'', PyInt 1)],
          acknowledged_slot = True, server_default_slot = False\<rparr>) = Some True"
proof -
  have a: "WriteConcern_init (PyInt 1) PyNone (PyBool False) PyNone =
     Inr \<lparr>document_slot = [(''j'', PyBool False), (''w'', PyInt 1)], acknowledged_slot = True,
          server_default_slot = False\<rparr>"
    by (simp add: init_defs)
  have b: "WriteConcern_init (PyBool True) PyNone (PyBool False) PyNone =
     Inr \<lparr>document_slot = [(''j'', PyBool False), (''w'', PyBool True)], acknowledged_slot = True,
          server_default_slot = False\<rparr>"
    by (simp add: init_defs)
  have c: "WriteConcern_init (PyInt 2) PyNone (PyBool False) PyNone =
     Inr \<lparr>document_slot = [(''j'', PyBool False), (''w'', PyInt 2)], acknowledged_slot = True,
          server_default_slot = False\<rparr>"
    by (simp add: init_defs)
  have ab: "alike_mapping [(''j'', PyBool False), (''w'', PyInt 1)]
      [(''j'', PyBool False), (''w'', PyBool True)]"
    by (simp add: alike_mapping_def mapping_rel_def alike_def dict_keys_def)
  have ca: "\<not> alike_mapping [(''j'', PyBool False), (''w'', PyInt 2)]
      [(''j'', PyBool False), (''w'', PyInt 1)]"
    by (simp add: alike_mapping_def mapping_rel_def alike_def dict_keys_def)
  from eq_mirrors_document[OF a b a] eq_mirrors_document[OF c a a] a b c ab ca show ?thesis
    by (simp add: document_def)
qed

section \<open>Copies of the document\<close>

text \<open>A call appends a copy; a change of a copy stays in that copy.\<close>

lemma document_st_Some:
  "document_addr r < length s \<Longrightarrow>
     document_st s r = Some (length s, s @ [s ! document_addr r])"
  by (simp add: document_st_def dict_copy_def)

lemma step_call:
  assumes "intact d r (s, rs)"
  shows "step r (s, rs) Call_document = (s @ [d], rs @ [length s])"
  using assms by (simp add: intact_def document_st_Some)

lemma intact_call:
  assumes "intact d r (s, rs)"
  shows "intact d r (s @ [d], rs @ [length s])"
  using assms by (auto simp: intact_def list_all_iff nth_append)

lemma intact_mutate:
  assumes "intact d r (s, rs)"
  shows "intact d r (step r (s, rs) (Mutate i g))"
  using assms by (auto simp: intact_def list_all_iff nth_list_update)

lemma intact_step: "intact d r st \<Longrightarrow> intact d r (step r st act)"
proof (cases st)
  case (Pair s rs)
  assume "intact d r st"
  with Pair show ?thesis
    by (cases act) (simp_all only: step_call intact_call intact_mutate)
qed

lemma intact_run: "intact d r st \<Longrightarrow> intact d r (run r st acts)"
  unfolding run_def by (induction acts arbitrary: st) (simp_all add: intact_step)

lemma intact_new:
  assumes "WriteConcern_new s0 w wtimeout j fsync = Inr (r, s1)"
  shows "intact (supplied w wtimeout j fsync) r (s1, [])"
proof -
  from assms obtain c where c: "WriteConcern_init w wtimeout j fsync = Inr c"
    and r: "document_addr r = length s0" and s1: "s1 = s0 @ [document_slot c]"
    by (auto simp: WriteConcern_new_def split: sum.splits)
  from init_Inr_document[OF c] r s1 show ?thesis by (simp add: intact_def)
qed

lemma intact_two_calls:
  assumes "intact d r (s, rs)"
  shows "\<exists>a1 a2 s'. run r (s, rs) [Call_document, Call_document] = (s', rs @ [a1, a2]) \<and>
      a1 \<noteq> a2 \<and> a1 \<notin> set rs \<and> a2 \<notin> set rs \<and> a1 \<noteq> document_addr r \<and>
      a2 \<noteq> document_addr r \<and> s' ! a1 = d \<and> s' ! a2 = d \<and> s' ! document_addr r = d"
proof -
  have run: "run r (s, rs) [Call_document, Call_document] =
      (s @ [d, d], rs @ [length s, Suc (length s)])"
    using step_call[OF assms] step_call[OF intact_call[OF assms]] by (simp add: run_def)
  from assms have "length s \<notin> set rs" "Suc (length s) \<notin> set rs"
    "document_addr r < length s" "s ! document_addr r = d"
    by (auto simp: intact_def list_all_iff)
  with run show ?thesis by (auto simp: nth_append)
qed

lemma intact_mutation:
  assumes "intact d r (s, rs)" and "i < length rs"
  shows "fst (step r (s, rs) (Mutate i g)) ! (rs ! i) = g (s ! (rs ! i))"
    and "fst (step r (s, rs) (Mutate i g)) ! document_addr r = d"
    and "\<And>k. k < length rs \<Longrightarrow> k \<noteq> i \<Longrightarrow>
           fst (step r (s, rs) (Mutate i g)) ! (rs ! k) = s ! (rs ! k)"
proof -
  from assms have lt: "rs ! i < length s" and ne: "rs ! i \<noteq> document_addr r"
    and d: "s ! document_addr r = d" and dist: "distinct rs"
    by (auto simp: intact_def list_all_iff)
  from assms(2) lt show "fst (step r (s, rs) (Mutate i g)) ! (rs ! i) = g (s ! (rs ! i))"
    by simp
  from assms(2) lt ne d show "fst (step r (s, rs) (Mutate i g)) ! document_addr r = d"
    by simp
  fix k assume "k < length rs" "k \<noteq> i"
  with dist assms(2) have "rs ! k \<noteq> rs ! i" by (simp add: nth_eq_iff_index_eq)
  with assms(2) lt show "fst (step r (s, rs) (Mutate i g)) ! (rs ! k) = s ! (rs ! k)"
    by simp
qed

text \<open>
  C8: every call of \<open>document\<close> returns a fresh, independent copy of the internal
  mapping. After any sequence of calls and of changes to returned copies, the dict of
  the instance still holds what the constructor stored; two further calls return two
  new, distinct dicts with that content; and a change of one returned copy changes
  that copy only, neither the dict of the instance nor any other copy.
\<close>

theorem document_copies_independent:
  assumes new: "WriteConcern_new s0 w wtimeout j fsync = Inr (r, s1)"
    and run: "run r (s1, []) acts = (s, rs)"
  shows "s ! document_addr r = supplied w wtimeout j fsync \<and>
    (\<exists>a1 a2 s'. run r (s, rs) [Call_document, Call_document] = (s', rs @ [a1, a2]) \<and>
       a1 \<noteq> a2 \<and> a1 \<notin> set rs \<and> a2 \<notin> set rs \<and> a1 \<noteq> document_addr r \<and>
       a2 \<noteq> document_addr r \<and>
       s' ! a1 = supplied w wtimeout j fsync \<and> s' ! a2 = supplied w wtimeout j fsync \<and>
       s' ! document_addr r = supplied w wtimeout j fsync) \<and>
    (\<forall>i g. i < length rs \<longrightarrow>
       fst (step r (s, rs) (Mutate i g)) ! (rs ! i) = g (s ! (rs ! i)) \<and>
       fst (step r (s, rs) (Mutate i g)) ! document_addr r = supplied w wtimeout j fsync \<and>
       (\<forall>k. k < length rs \<and> k \<noteq> i \<longrightarrow>
          fst (step r (s, rs) (Mutate i g)) ! (rs ! k) = s ! (rs ! k)))"
proof -
  have inv: "intact (supplied w wtimeout j fsync) r (s, rs)"
    using intact_run[OF intact_new[OF new], of acts] run by simp
  then have "s ! document_addr r = supplied w wtimeout j fsync"
    by (simp add: intact_def)
  with intact_two_calls[OF inv] intact_mutation[OF inv] show ?thesis by blast
qed

theorem document_copies_independent_witness:
  "WriteConcern_new [] (PyInt 3) PyNone PyNone PyNone =
     Inr (\<lparr>document_addr = 0, acknowledged_val = True, server_default_val = False\<rparr>,
          [[(''w'', PyInt 3)]]) \<and>
   run \<lparr>document_addr = 0, acknowledged_val = True, server_default_val = False\<rparr>
     ([[(''w'', PyInt 3)]], [])
     [Call_document, Mutate 0 (\<lambda>d. dict_setitem d ''w'' (PyInt 0)), Call_document] =
     ([[(''w'', PyInt 3)], [(''w'', PyInt 0)], [(''w'', PyInt 3)]], [1, 2]) \<and>
   [[(''w'', PyInt 3)], [(''w'', PyInt 0)], [(''w'', PyInt 3)]] ! 0 =
     supplied (PyInt 3) PyNone PyNone PyNone"
proof -
  have new: "WriteConcern_new [] (PyInt 3) PyNone PyNone PyNone =
     Inr (\<lparr>document_addr = 0, acknowledged_val = True, server_default_val = False\<rparr>,
          [[(''w'', PyInt 3)]])"
    by (simp add: WriteConcern_new_def init_defs)
  have run: "run \<lparr>document_addr = 0, acknowledged_val = True, server_default_val = False\<rparr>
     ([[(''w'', PyInt 3)]], [])
     [Call_document, Mutate 0 (\<lambda>d. dict_setitem d ''w'' (PyInt 0)), Call_document] =
     ([[(''w'', PyInt 3)], [(''w'', PyInt 0)], [(''w'', PyInt 3)]], [1, 2])"
    by (simp add: run_def document_st_def dict_copy_def)
  from document_copies_independent[OF new run] new run show ?thesis
    by simp
qed

end
